theory Spec2Isabelle
  imports Main
begin

section \<open>JavaScript values\<close>

text \<open>
  The values that reach \<^verbatim>\<open>launch\<close>: the port, \<^verbatim>\<open>dbPath\<close>, \<^verbatim>\<open>additionalArgs\<close>,
  \<^verbatim>\<open>javaOpts\<close> and the entries of the argument list handed to \<^verbatim>\<open>spawn\<close>. Arrays are
  objects with identity: \<open>JArr a\<close> is a reference to the array stored at address \<open>a\<close>
  of the store, so that a \<^verbatim>\<open>push\<close> is seen through every alias. Numbers are the
  integers (port numbers); \<open>JObj\<close> stands for any other object.
\<close>

datatype jsval =
    JUndefined
  | JNull
  | JBool bool
  | JNum int
  | JStr string
  | JArr nat
  | JObj nat

text \<open>\<^verbatim>\<open>!!v\<close>: the empty string, \<^verbatim>\<open>0\<close>, \<^verbatim>\<open>null\<close>, \<^verbatim>\<open>undefined\<close> and \<^verbatim>\<open>false\<close> are falsy,
  every object is truthy.\<close>

fun truthy :: "jsval \<Rightarrow> bool" where
  "truthy JUndefined = False"
| "truthy JNull = False"
| "truthy (JBool b) = b"
| "truthy (JNum n) = (n \<noteq> 0)"
| "truthy (JStr s) = (s \<noteq> [])"
| "truthy (JArr a) = True"
| "truthy (JObj a) = True"

section \<open>Module state\<close>

definition JARNAME :: string where
  "JARNAME = ''DynamoDBLocal.jar''"

record config =
  installPath :: string
  downloadUrl :: string

text \<open>A \<^verbatim>\<open>ChildProcess\<close> object: \<open>cid\<close> is its identity as an object (two calls of
  \<^verbatim>\<open>spawn\<close> never return the same object), \<open>pid\<close> the process identifier, absent when
  the operating system created no process.\<close>

record child =
  cid :: nat
  pid :: "nat option"

datatype signal = SIGTERM | SIGKILL

datatype error =
    JsError string
  | MkdirError string

text \<open>What the module does to the world outside it, in the order it does it.\<close>

datatype event =
    Mkdir string
  | ReadLocal string string
  | HttpGet string
  | Extract string
  | Rejection string
  | Spawn nat string "jsval list" string
  | Kill nat signal

text \<open>
  \<open>Config\<close> and \<open>runningProcesses\<close> are the module's two variables. Ports are
  integers: the property key of \<^verbatim>\<open>runningProcesses[port]\<close> is the decimal string of the
  port, different for different integers and never the name of an inherited property of
  an object, so the registry is a map from \<open>int\<close>.
  \<open>files\<close> is the set of paths for which \<^verbatim>\<open>fs.existsSync\<close> answers true,
  \<open>arrays\<close> the store of array objects, \<open>exit_hooks\<close> the children that a handler of
  the host's \<^verbatim>\<open>exit\<close> event kills, \<open>trace\<close> the events so far.
\<close>

record world =
  Config :: config
  runningProcesses :: "int \<rightharpoonup> child"
  files :: "string set"
  arrays :: "nat \<rightharpoonup> jsval list"
  next_array :: nat
  next_child :: nat
  exit_hooks :: "nat list"
  trace :: "event list"

text \<open>What the operating system answers during one call: whether \<^verbatim>\<open>fs.mkdirSync\<close>
  succeeds, and the process identifier \<^verbatim>\<open>spawn\<close> obtains.\<close>

record os =
  mkdirSync_ok :: bool
  spawned_pid :: "nat option"

definition emit :: "event \<Rightarrow> world \<Rightarrow> world" where
  "emit e s = s\<lparr>trace := trace s @ [e]\<rparr>"

text \<open>\<^verbatim>\<open>path.join(dir, name)\<close> for a file name \<open>name\<close>. The further normalisation of
  \<^verbatim>\<open>path.join\<close> (\<^verbatim>\<open>.\<close>, \<^verbatim>\<open>..\<close>, repeated separators) does not change the file that the
  path names and is left to \<open>files\<close>.\<close>

definition path_join :: "string \<Rightarrow> string \<Rightarrow> string" where
  "path_join dir name =
     (if dir = [] then name
      else if last dir = CHR ''/'' then dir @ name
      else dir @ ''/'' @ name)"

text \<open>The module as loaded: the default configuration under the temporary directory
  \<open>tmpdir\<close> of the host, nothing running.\<close>

definition initial_world :: "string \<Rightarrow> string set \<Rightarrow> world" where
  "initial_world tmpdir fs =
     \<lparr>Config = \<lparr>installPath = path_join tmpdir ''dynamodb-local'',
                 downloadUrl = ''https://s3-us-west-2.amazonaws.com/dynamodb-local/dynamodb_local_latest.tar.gz''\<rparr>,
      runningProcesses = Map.empty,
      files = fs,
      arrays = Map.empty,
      next_array = 0,
      next_child = 0,
      exit_hooks = [],
      trace = []\<rparr>"

section \<open>The installer\<close>

definition mkdirSync :: "os \<Rightarrow> string \<Rightarrow> world \<Rightarrow> error + world" where
  "mkdirSync env p s =
     (if mkdirSync_ok env then Inr (emit (Mkdir p) (s\<lparr>files := insert p (files s)\<rparr>))
      else Inl (MkdirError p))"

definition jar_present :: "world \<Rightarrow> bool" where
  "jar_present s = (path_join (installPath (Config s)) JARNAME \<in> files s)"

text \<open>
  \<^verbatim>\<open>installDynamoDbLocal\<close> is an \<^verbatim>\<open>async\<close> function that awaits nothing: its body runs
  to its end at the call and its promise is then fulfilled, or rejected when
  \<^verbatim>\<open>mkdirSync\<close> throws. The stream and the request it starts go on after it has
  returned: what the request does when it is answered is \<open>redirectResponse\<close> below, and
  the handlers of the streams only make promises that nobody holds.
\<close>

definition installDynamoDbLocal :: "os \<Rightarrow> world \<Rightarrow> (error + unit) \<times> world" where
  "installDynamoDbLocal env s =
     (if jar_present s then (Inr (), s)
      else
        (case (if installPath (Config s) \<in> files s then Inr s
               else mkdirSync env (installPath (Config s)) s) of
           Inl e \<Rightarrow> (Inl e, s)
         | Inr s1 \<Rightarrow>
             if downloadUrl (Config s1) \<in> files s1
             then (Inr (), emit (ReadLocal (downloadUrl (Config s1)) (installPath (Config s1))) s1)
             else (Inr (), emit (HttpGet (downloadUrl (Config s1))) s1)))"

text \<open>Decimal digits of a number, for the text of an error message.\<close>

definition digit_char :: "nat \<Rightarrow> char" where
  "digit_char d = ''0123456789'' ! (d mod 10)"

function string_of_nat :: "nat \<Rightarrow> string" where
  "string_of_nat n =
     (if n < 10 then [digit_char n] else string_of_nat (n div 10) @ [digit_char (n mod 10)])"
  by pat_completeness auto
termination
  by (relation "measure (\<lambda>n. n)") auto

declare string_of_nat.simps [simp del]

text \<open>
  The callback of \<^verbatim>\<open>https.get\<close>, run by the event loop when the response arrives:
  \<open>status\<close> is \<^verbatim>\<open>statusCode\<close>, \<open>location\<close> the \<^verbatim>\<open>location\<close> header. On a status other
  than 200 it makes a rejected promise that nobody holds (\<^verbatim>\<open>Promise.reject(...)\<close> as a
  statement) and goes on: the response is piped into the extraction in both cases.
\<close>

definition redirectResponse :: "nat \<Rightarrow> string option \<Rightarrow> world \<Rightarrow> world" where
  "redirectResponse status location s =
     (let s1 = (if 200 \<noteq> status
                then emit (Rejection (''Error getting DynamoDb local latest tar.gz location ''
                       @ (case location of None \<Rightarrow> ''undefined'' | Some l \<Rightarrow> l)
                       @ '': '' @ string_of_nat status)) s
                else s)
      in emit (Extract (installPath (Config s1))) s1)"

section \<open>The lifecycle manager\<close>

definition array_at :: "world \<Rightarrow> nat \<Rightarrow> jsval list" where
  "array_at s a = (case arrays s a of None \<Rightarrow> [] | Some xs \<Rightarrow> xs)"

text \<open>An array literal: a new object.\<close>

definition new_array :: "jsval list \<Rightarrow> world \<Rightarrow> nat \<times> world" where
  "new_array xs s =
     (next_array s,
      s\<lparr>arrays := (arrays s)(next_array s \<mapsto> xs), next_array := Suc (next_array s)\<rparr>)"

text \<open>\<^verbatim>\<open>a.push(...items)\<close>: the array at \<open>a\<close> itself grows.\<close>

definition push :: "nat \<Rightarrow> jsval list \<Rightarrow> world \<Rightarrow> world" where
  "push a items s = s\<lparr>arrays := (arrays s)(a \<mapsto> array_at s a @ items)\<rparr>"

text \<open>Lines 36 to 40: \<^verbatim>\<open>additionalArgs\<close> becomes an array, the caller's own when it
  already is one (\<^verbatim>\<open>Array.isArray\<close> holds of the values \<open>JArr a\<close> and of no other).\<close>

definition normalizeArgs :: "jsval \<Rightarrow> world \<Rightarrow> nat \<times> world" where
  "normalizeArgs additionalArgs s =
     (if \<not> truthy additionalArgs then new_array [] s
      else (case additionalArgs of
              JArr a \<Rightarrow> (a, s)
            | v \<Rightarrow> new_array [v] s))"

text \<open>Lines 42 to 46.\<close>

definition pushDbFlags :: "jsval \<Rightarrow> nat \<Rightarrow> world \<Rightarrow> world" where
  "pushDbFlags dbPath a s =
     (if \<not> truthy dbPath then push a [JStr ''-inMemory''] s
      else push a [JStr ''-dbPath'', dbPath] s)"

text \<open>
  \<^verbatim>\<open>launch\<close> is \<^verbatim>\<open>async\<close>. \<open>launch_sync\<close> is what runs at the call: the look-up in the
  registry, the normalisation of the arguments and the body of the installer. It ends
  with the promise settled (\<open>Resolved\<close>, \<open>Rejected\<close>) or with the callback of \<^verbatim>\<open>then\<close>
  waiting (\<open>Then a\<close>, where \<open>a\<close> is the array of additional arguments).
\<close>

datatype pending = Resolved child | Rejected error | Then nat

definition launch_sync :: "int \<Rightarrow> jsval \<Rightarrow> jsval \<Rightarrow> os \<Rightarrow> world \<Rightarrow> pending \<times> world" where
  "launch_sync port dbPath additionalArgs env s =
     (case runningProcesses s port of
        Some c \<Rightarrow> (Resolved c, s)
      | None \<Rightarrow>
          (let (a, s1) = normalizeArgs additionalArgs s;
               s2 = pushDbFlags dbPath a s1
           in (case installDynamoDbLocal env s2 of
                 (Inl e, s3) \<Rightarrow> (Rejected e, s3)
               | (Inr u, s3) \<Rightarrow> (Then a, s3))))"

text \<open>The parameter default \<^verbatim>\<open>javaOpts = ''\<close>.\<close>

definition javaOpts_default :: "jsval \<Rightarrow> jsval" where
  "javaOpts_default javaOpts = (if javaOpts = JUndefined then JStr [] else javaOpts)"

text \<open>Lines 50 to 59: the argument list of the subprocess.\<close>

definition launch_args :: "int \<Rightarrow> jsval \<Rightarrow> jsval list \<Rightarrow> jsval list" where
  "launch_args port javaOpts additional =
     filter truthy
       [JStr ''-Xrs'',
        JStr ''-Djava.library.path=./DynamoDBLocal_lib'',
        javaOpts_default javaOpts,
        JStr ''-jar'',
        JStr JARNAME,
        JStr ''-port'',
        JNum port]
     @ additional"

text \<open>\<^verbatim>\<open>!child.pid\<close> is false for a process identifier other than 0.\<close>

definition has_pid :: "child \<Rightarrow> bool" where
  "has_pid c = (case pid c of None \<Rightarrow> False | Some n \<Rightarrow> n \<noteq> 0)"

text \<open>
  The callback of \<^verbatim>\<open>then\<close> (lines 49 to 93). The handlers of the child's \<^verbatim>\<open>error\<close> and
  \<^verbatim>\<open>close\<close> events and the \<^verbatim>\<open>debug\<close> output act after \<^verbatim>\<open>launch\<close> has settled, or
  only print; \<open>verbose\<close> changes nothing else.
\<close>

definition launch_then ::
  "int \<Rightarrow> nat \<Rightarrow> bool \<Rightarrow> bool \<Rightarrow> jsval \<Rightarrow> os \<Rightarrow> world \<Rightarrow> (error + child) \<times> world" where
  "launch_then port a verbose detached javaOpts env s =
     (let args = launch_args port javaOpts (array_at s a);
          c = \<lparr>cid = next_child s, pid = spawned_pid env\<rparr>;
          s1 = emit (Spawn (cid c) ''java'' args (installPath (Config s)))
                 (s\<lparr>next_child := Suc (next_child s)\<rparr>)
      in if \<not> has_pid c then (Inl (JsError ''Unable to launch DynamoDBLocal process''), s1)
         else
           (let s2 = (if \<not> detached then s1\<lparr>exit_hooks := exit_hooks s1 @ [cid c]\<rparr> else s1)
            in (Inr c, s2\<lparr>runningProcesses := (runningProcesses s2)(port \<mapsto> c)\<rparr>)))"

text \<open>An awaited call of \<^verbatim>\<open>launch\<close>: the callback runs as soon as the installer's promise
  is fulfilled, before the event loop delivers anything else.\<close>

definition launch ::
  "int \<Rightarrow> jsval \<Rightarrow> jsval \<Rightarrow> bool \<Rightarrow> bool \<Rightarrow> jsval \<Rightarrow> os \<Rightarrow> world \<Rightarrow> (error + child) \<times> world" where
  "launch port dbPath additionalArgs verbose detached javaOpts env s =
     (case launch_sync port dbPath additionalArgs env s of
        (Resolved c, s1) \<Rightarrow> (Inr c, s1)
      | (Rejected e, s1) \<Rightarrow> (Inl e, s1)
      | (Then a, s1) \<Rightarrow> launch_then port a verbose detached javaOpts env s1)"

definition stop :: "int \<Rightarrow> world \<Rightarrow> world" where
  "stop port s =
     (case runningProcesses s port of
        Some c \<Rightarrow> (emit (Kill (cid c) SIGKILL) s)\<lparr>runningProcesses := (runningProcesses s)(port := None)\<rparr>
      | None \<Rightarrow> s)"

definition stopChild :: "child \<Rightarrow> world \<Rightarrow> world" where
  "stopChild c s = (if has_pid c then emit (Kill (cid c) SIGTERM) s else s)"

definition relaunch ::
  "int \<Rightarrow> jsval \<Rightarrow> jsval \<Rightarrow> bool \<Rightarrow> bool \<Rightarrow> jsval \<Rightarrow> os \<Rightarrow> world \<Rightarrow> (error + child) \<times> world" where
  "relaunch port dbPath additionalArgs verbose detached javaOpts env s =
     (let s1 = stop port s
      in launch port dbPath additionalArgs verbose detached javaOpts env s1)"

text \<open>The argument of \<^verbatim>\<open>configureInstaller\<close>: a field is \<open>None\<close> when the object has
  no such property.\<close>

record installer_conf =
  conf_installPath :: "string option"
  conf_downloadUrl :: "string option"

text \<open>\<^verbatim>\<open>if (conf.installPath)\<close>: the property is there and is not the empty string.\<close>

definition given :: "string option \<Rightarrow> bool" where
  "given v = (case v of None \<Rightarrow> False | Some x \<Rightarrow> x \<noteq> [])"

definition configureInstaller :: "installer_conf \<Rightarrow> world \<Rightarrow> world" where
  "configureInstaller conf s =
     (let s1 = (if given (conf_installPath conf)
                then s\<lparr>Config := (Config s)\<lparr>installPath := the (conf_installPath conf)\<rparr>\<rparr>
                else s)
      in if given (conf_downloadUrl conf)
         then s1\<lparr>Config := (Config s1)\<lparr>downloadUrl := the (conf_downloadUrl conf)\<rparr>\<rparr>
         else s1)"

section \<open>Reading the state\<close>

text \<open>The subprocesses created so far: object identity, command, argument list and
  working directory of each call of \<^verbatim>\<open>spawn\<close>, in order.\<close>

fun spawned :: "event list \<Rightarrow> (nat \<times> string \<times> jsval list \<times> string) list" where
  "spawned [] = []"
| "spawned (Spawn c cmd args cwd # es) = (c, cmd, args, cwd) # spawned es"
| "spawned (e # es) = spawned es"

text \<open>The events of an installation: a directory made, an archive read or requested,
  an extraction started.\<close>

fun is_install_event :: "event \<Rightarrow> bool" where
  "is_install_event (Mkdir p) = True"
| "is_install_event (ReadLocal u p) = True"
| "is_install_event (HttpGet u) = True"
| "is_install_event (Extract p) = True"
| "is_install_event e = False"

text \<open>The flags that lines 42 to 46 append.\<close>

definition db_flags :: "jsval \<Rightarrow> jsval list" where
  "db_flags dbPath =
     (if \<not> truthy dbPath then [JStr ''-inMemory''] else [JStr ''-dbPath'', dbPath])"

text \<open>The additional arguments as the caller passed them: the entries of the caller's
  array, the single value that is no array, or nothing.\<close>

definition additional_list :: "jsval \<Rightarrow> world \<Rightarrow> jsval list" where
  "additional_list additionalArgs s =
     (if \<not> truthy additionalArgs then []
      else (case additionalArgs of
              JArr a \<Rightarrow> array_at s a
            | v \<Rightarrow> [v]))"

text \<open>The installer has what it needs to return normally: the jar, or the install
  directory, or a \<^verbatim>\<open>mkdirSync\<close> that succeeds.\<close>

definition install_returns :: "os \<Rightarrow> world \<Rightarrow> bool" where
  "install_returns env s =
     (jar_present s \<or> installPath (Config s) \<in> files s \<or> mkdirSync_ok env)"

text \<open>Every registered child is an object that \<^verbatim>\<open>spawn\<close> has already returned.\<close>

definition registry_fresh :: "world \<Rightarrow> bool" where
  "registry_fresh s = (\<forall>c \<in> ran (runningProcesses s). cid c < next_child s)"

text \<open>\<^verbatim>\<open>relaunch\<close> as the specification words it: \<^verbatim>\<open>stop(port)\<close> followed by
  \<^verbatim>\<open>launch(port, ...launchArgs)\<close>.\<close>

definition relaunch_spec ::
  "int \<Rightarrow> jsval \<Rightarrow> jsval \<Rightarrow> bool \<Rightarrow> bool \<Rightarrow> jsval \<Rightarrow> os \<Rightarrow> world \<Rightarrow> (error + child) \<times> world" where
  "relaunch_spec port dbPath additionalArgs verbose detached javaOpts env s =
     launch port dbPath additionalArgs verbose detached javaOpts env (stop port s)"

text \<open>Lines 36 to 46 together: the array of additional arguments and the state after
  the flags are pushed.\<close>

definition prepareArgs :: "jsval \<Rightarrow> jsval \<Rightarrow> world \<Rightarrow> nat \<times> world" where
  "prepareArgs dbPath additionalArgs s =
     (let (a, s1) = normalizeArgs additionalArgs s in (a, pushDbFlags dbPath a s1))"

section \<open>Example states\<close>

text \<open>An operating system that makes directories and starts processes.\<close>

definition example_os :: os where
  "example_os = \<lparr>mkdirSync_ok = True, spawned_pid = Some 4242\<rparr>"

text \<open>One whose \<^verbatim>\<open>spawn\<close> obtains no process identifier.\<close>

definition failing_os :: os where
  "failing_os = \<lparr>mkdirSync_ok = True, spawned_pid = None\<rparr>"

text \<open>The module as loaded on a host where the distribution is already unpacked.\<close>

definition installed_world :: world where
  "installed_world =
     initial_world ''/tmp'' {''/tmp'', ''/tmp/dynamodb-local'', ''/tmp/dynamodb-local/DynamoDBLocal.jar''}"

text \<open>The module as loaded on a host with an empty install directory; the download URL
  is no local file.\<close>

definition empty_dir_world :: world where
  "empty_dir_world = initial_world ''/tmp'' {''/tmp'', ''/tmp/dynamodb-local''}"

text \<open>A state with a child registered on port 8000.\<close>

definition running_world :: world where
  "running_world =
     installed_world\<lparr>runningProcesses := [8000 \<mapsto> \<lparr>cid = 0, pid = Some 4242\<rparr>],
                      next_child := 1\<rparr>"

text \<open>A caller's array at address 0, with the entries \<open>xs\<close>.\<close>

definition with_array :: "jsval list \<Rightarrow> world \<Rightarrow> world" where
  "with_array xs s = s\<lparr>arrays := (arrays s)(0 \<mapsto> xs), next_array := 1\<rparr>"


text \<open>The state after \<^verbatim>\<open>await launch(8000)\<close> in \<open>installed_world\<close>.\<close>

definition launched_world :: world where
  "launched_world =
     snd (launch 8000 JUndefined JUndefined False False JUndefined example_os installed_world)"


section \<open>Basic facts\<close>


lemma launch_registered:
  "runningProcesses s port = Some c \<Longrightarrow>
   launch port dbPath additionalArgs verbose detached javaOpts env s = (Inr c, s)"
  by (simp add: launch_def launch_sync_def)

lemma spawned_append: "spawned (xs @ ys) = spawned xs @ spawned ys"
  by (induction xs rule: spawned.induct) simp_all

lemma pushDbFlags_eq: "pushDbFlags dbPath a s = push a (db_flags dbPath) s"
  by (simp add: pushDbFlags_def db_flags_def)

lemma prepareArgs_array:
  "prepareArgs dbPath additionalArgs s = (a, s2) \<Longrightarrow>
   array_at s2 a = additional_list additionalArgs s @ db_flags dbPath"
  by (cases additionalArgs)
     (auto simp: prepareArgs_def normalizeArgs_def pushDbFlags_eq push_def new_array_def array_at_def
        additional_list_def split: if_splits)

lemma prepareArgs_frame:
  "prepareArgs dbPath additionalArgs s = (a, s2) \<Longrightarrow>
   Config s2 = Config s \<and> runningProcesses s2 = runningProcesses s \<and> files s2 = files s
   \<and> next_child s2 = next_child s \<and> exit_hooks s2 = exit_hooks s \<and> trace s2 = trace s"
  by (cases additionalArgs)
     (auto simp: prepareArgs_def normalizeArgs_def pushDbFlags_eq push_def new_array_def
        split: if_splits)

lemma install_frame:
  "installDynamoDbLocal env s = (r, s') \<Longrightarrow>
   Config s' = Config s \<and> runningProcesses s' = runningProcesses s \<and> arrays s' = arrays s
   \<and> next_child s' = next_child s \<and> exit_hooks s' = exit_hooks s
   \<and> next_array s' = next_array s
   \<and> spawned (trace s') = spawned (trace s)"
  by (auto simp: installDynamoDbLocal_def mkdirSync_def emit_def spawned_append
        split: if_splits sum.splits)

lemma install_result:
  "fst (installDynamoDbLocal env s) = (if install_returns env s then Inr () else Inl (MkdirError (installPath (Config s))))"
  by (auto simp: installDynamoDbLocal_def mkdirSync_def emit_def install_returns_def
        split: if_splits sum.splits)


lemma launch_sync_unregistered:
  "runningProcesses s port = None \<Longrightarrow> prepareArgs dbPath additionalArgs s = (a, s2) \<Longrightarrow>
   launch_sync port dbPath additionalArgs env s =
     (case installDynamoDbLocal env s2 of
        (Inl e, s3) \<Rightarrow> (Rejected e, s3)
      | (Inr u, s3) \<Rightarrow> (Then a, s3))"
  by (auto simp: launch_sync_def prepareArgs_def split: prod.splits)

lemma install_returns_prepareArgs:
  "prepareArgs dbPath additionalArgs s = (a, s2) \<Longrightarrow> install_returns env s2 = install_returns env s"
  by (drule prepareArgs_frame) (simp add: install_returns_def jar_present_def)

lemma launch_spawns:
  assumes free: "runningProcesses s port = None"
    and inst: "install_returns env s"
  shows "spawned (trace (snd (launch port dbPath additionalArgs verbose detached javaOpts env s)))
           = spawned (trace s) @
             [(next_child s, ''java'',
               launch_args port javaOpts (additional_list additionalArgs s @ db_flags dbPath),
               installPath (Config s))]"
    and "fst (launch port dbPath additionalArgs verbose detached javaOpts env s)
           = (if has_pid \<lparr>cid = next_child s, pid = spawned_pid env\<rparr>
              then Inr \<lparr>cid = next_child s, pid = spawned_pid env\<rparr>
              else Inl (JsError ''Unable to launch DynamoDBLocal process''))"
    and "runningProcesses (snd (launch port dbPath additionalArgs verbose detached javaOpts env s))
           = (if has_pid \<lparr>cid = next_child s, pid = spawned_pid env\<rparr>
              then (runningProcesses s)(port \<mapsto> \<lparr>cid = next_child s, pid = spawned_pid env\<rparr>)
              else runningProcesses s)"
    and "next_child (snd (launch port dbPath additionalArgs verbose detached javaOpts env s))
           = Suc (next_child s)"
proof -
  obtain a s2 where p: "prepareArgs dbPath additionalArgs s = (a, s2)"
    by (cases "prepareArgs dbPath additionalArgs s")
  obtain r s3 where i: "installDynamoDbLocal env s2 = (r, s3)"
    by (cases "installDynamoDbLocal env s2")
  have "install_returns env s2"
    using inst install_returns_prepareArgs [OF p] by simp
  then have r: "r = Inr ()"
    using install_result [of env s2] i by simp
  have sync: "launch_sync port dbPath additionalArgs env s = (Then a, s3)"
    using launch_sync_unregistered [OF free p] i r by simp
  have L: "launch port dbPath additionalArgs verbose detached javaOpts env s
             = launch_then port a verbose detached javaOpts env s3"
    by (simp add: launch_def sync)
  note f2 = prepareArgs_frame [OF p] and f3 = install_frame [OF i]
  have arr: "array_at s3 a = additional_list additionalArgs s @ db_flags dbPath"
    using prepareArgs_array [OF p] f3 by (simp add: array_at_def)
  show "spawned (trace (snd (launch port dbPath additionalArgs verbose detached javaOpts env s)))
           = spawned (trace s) @
             [(next_child s, ''java'',
               launch_args port javaOpts (additional_list additionalArgs s @ db_flags dbPath),
               installPath (Config s))]"
    using f2 f3 arr by (simp add: L launch_then_def Let_def emit_def spawned_append)
  show "fst (launch port dbPath additionalArgs verbose detached javaOpts env s)
           = (if has_pid \<lparr>cid = next_child s, pid = spawned_pid env\<rparr>
              then Inr \<lparr>cid = next_child s, pid = spawned_pid env\<rparr>
              else Inl (JsError ''Unable to launch DynamoDBLocal process''))"
    using f2 f3 by (simp add: L launch_then_def Let_def emit_def)
  show "runningProcesses (snd (launch port dbPath additionalArgs verbose detached javaOpts env s))
           = (if has_pid \<lparr>cid = next_child s, pid = spawned_pid env\<rparr>
              then (runningProcesses s)(port \<mapsto> \<lparr>cid = next_child s, pid = spawned_pid env\<rparr>)
              else runningProcesses s)"
    using f2 f3 by (simp add: L launch_then_def Let_def emit_def)
  show "next_child (snd (launch port dbPath additionalArgs verbose detached javaOpts env s))
           = Suc (next_child s)"
    using f2 f3 by (simp add: L launch_then_def Let_def emit_def)
qed

lemma launch_rejected:
  assumes free: "runningProcesses s port = None"
    and inst: "\<not> install_returns env s"
  shows "fst (launch port dbPath additionalArgs verbose detached javaOpts env s)
           = Inl (MkdirError (installPath (Config s)))"
    and "spawned (trace (snd (launch port dbPath additionalArgs verbose detached javaOpts env s)))
           = spawned (trace s)"
    and "runningProcesses (snd (launch port dbPath additionalArgs verbose detached javaOpts env s))
           = runningProcesses s"
    and "next_child (snd (launch port dbPath additionalArgs verbose detached javaOpts env s))
           = next_child s"
proof -
  obtain a s2 where p: "prepareArgs dbPath additionalArgs s = (a, s2)"
    by (cases "prepareArgs dbPath additionalArgs s")
  obtain r s3 where i: "installDynamoDbLocal env s2 = (r, s3)"
    by (cases "installDynamoDbLocal env s2")
  note f2 = prepareArgs_frame [OF p] and f3 = install_frame [OF i]
  have "\<not> install_returns env s2"
    using inst install_returns_prepareArgs [OF p] by simp
  then have r: "r = Inl (MkdirError (installPath (Config s)))"
    using install_result [of env s2] i f2 by simp
  have L: "launch port dbPath additionalArgs verbose detached javaOpts env s
             = (Inl (MkdirError (installPath (Config s))), s3)"
    using launch_sync_unregistered [OF free p] i r by (simp add: launch_def)
  show "fst (launch port dbPath additionalArgs verbose detached javaOpts env s)
           = Inl (MkdirError (installPath (Config s)))"
    by (simp add: L)
  show "spawned (trace (snd (launch port dbPath additionalArgs verbose detached javaOpts env s)))
           = spawned (trace s)"
    using f2 f3 by (simp add: L)
  show "runningProcesses (snd (launch port dbPath additionalArgs verbose detached javaOpts env s))
           = runningProcesses s"
    using f2 f3 by (simp add: L)
  show "next_child (snd (launch port dbPath additionalArgs verbose detached javaOpts env s))
           = next_child s"
    using f2 f3 by (simp add: L)
qed

section \<open>Stopping\<close>

text \<open>
  C5. \<^verbatim>\<open>stop(p)\<close> on a port with no registry entry changes nothing, and it cannot
  raise: it is a function from states to states. On a port with an entry it sends
  \<^verbatim>\<open>SIGKILL\<close> to that child, as the one new event, and deletes the entry; it does not
  wait for anything (it consults no later event), the entries of all other ports and
  every other part of the state stay as they are.
\<close>

theorem stop_registry:
  "(runningProcesses s p = None \<longrightarrow> stop p s = s) \<and>
   (\<forall>c. runningProcesses s p = Some c \<longrightarrow>
      trace (stop p s) = trace s @ [Kill (cid c) SIGKILL]
      \<and> runningProcesses (stop p s) = (runningProcesses s)(p := None)
      \<and> Config (stop p s) = Config s \<and> files (stop p s) = files s
      \<and> arrays (stop p s) = arrays s \<and> next_array (stop p s) = next_array s
      \<and> next_child (stop p s) = next_child s \<and> exit_hooks (stop p s) = exit_hooks s)"
  by (simp add: stop_def emit_def)

theorem stop_registry_witness:
  "runningProcesses running_world 9000 = None
   \<and> stop 9000 running_world = running_world
   \<and> runningProcesses running_world 8000 = Some \<lparr>cid = 0, pid = Some 4242\<rparr>
   \<and> trace (stop 8000 running_world) = [Kill 0 SIGKILL]
   \<and> runningProcesses (stop 8000 running_world) 8000 = None"
proof -
  have a: "runningProcesses running_world 9000 = None"
    by (simp add: running_world_def)
  have b: "runningProcesses running_world 8000 = Some \<lparr>cid = 0, pid = Some 4242\<rparr>"
    by (simp add: running_world_def)
  have t: "trace running_world = []"
    by (simp add: running_world_def installed_world_def initial_world_def)
  from stop_registry [of running_world 9000] a
  have 1: "stop 9000 running_world = running_world" by simp
  from stop_registry [of running_world 8000] b
  have 2: "trace (stop 8000 running_world) = trace running_world @ [Kill 0 SIGKILL]
        \<and> runningProcesses (stop 8000 running_world) = (runningProcesses running_world)(8000 := None)"
    by simp
  from a b 1 2 t show ?thesis by simp
qed

section \<open>Configuring the installer\<close>



section \<open>Facts about the example states\<close>

lemma empty_dir_facts:
  "runningProcesses empty_dir_world = Map.empty"
  "files empty_dir_world = {''/tmp'', ''/tmp/dynamodb-local''}"
  "Config empty_dir_world = \<lparr>installPath = ''/tmp/dynamodb-local'',
      downloadUrl = ''https://s3-us-west-2.amazonaws.com/dynamodb-local/dynamodb_local_latest.tar.gz''\<rparr>"
  "next_child empty_dir_world = 0"
  "trace empty_dir_world = []"
  "arrays empty_dir_world = Map.empty"
  "next_array empty_dir_world = 0"
  "exit_hooks empty_dir_world = []"
  by (simp_all add: empty_dir_world_def initial_world_def path_join_def)

lemma installed_facts:
  "runningProcesses installed_world = Map.empty"
  "files installed_world = {''/tmp'', ''/tmp/dynamodb-local'', ''/tmp/dynamodb-local/DynamoDBLocal.jar''}"
  "Config installed_world = \<lparr>installPath = ''/tmp/dynamodb-local'',
      downloadUrl = ''https://s3-us-west-2.amazonaws.com/dynamodb-local/dynamodb_local_latest.tar.gz''\<rparr>"
  "next_child installed_world = 0"
  "trace installed_world = []"
  "arrays installed_world = Map.empty"
  "next_array installed_world = 0"
  "exit_hooks installed_world = []"
  by (simp_all add: installed_world_def initial_world_def path_join_def)

lemma installed_jar: "jar_present installed_world"
  by (simp add: jar_present_def installed_facts path_join_def JARNAME_def)

lemma empty_dir_no_jar: "\<not> jar_present empty_dir_world"
  by (simp add: jar_present_def empty_dir_facts path_join_def JARNAME_def)

section \<open>Launching without a process identifier\<close>

text \<open>
  C8. When \<^verbatim>\<open>launch\<close> reaches \<^verbatim>\<open>spawn\<close> (no entry for the port, the installer
  returns) and the child has no process identifier, \<^verbatim>\<open>launch\<close> fails with the error
  \<^verbatim>\<open>Unable to launch DynamoDBLocal process\<close>, and the registry is as it was: nothing is
  stored for the port.
\<close>

theorem launch_without_pid:
  assumes "runningProcesses s port = None"
    and "install_returns env s"
    and "\<not> has_pid \<lparr>cid = next_child s, pid = spawned_pid env\<rparr>"
  shows "fst (launch port dbPath additionalArgs verbose detached javaOpts env s)
           = Inl (JsError ''Unable to launch DynamoDBLocal process'')
         \<and> runningProcesses (snd (launch port dbPath additionalArgs verbose detached javaOpts env s))
             = runningProcesses s
         \<and> runningProcesses (snd (launch port dbPath additionalArgs verbose detached javaOpts env s)) port
             = None"
  using assms launch_spawns(2,3) [OF assms(1,2)] by simp

theorem launch_without_pid_witness:
  "runningProcesses installed_world 8000 = None
   \<and> install_returns failing_os installed_world
   \<and> \<not> has_pid \<lparr>cid = next_child installed_world, pid = spawned_pid failing_os\<rparr>
   \<and> fst (launch 8000 JUndefined JUndefined False False JUndefined failing_os installed_world)
        = Inl (JsError ''Unable to launch DynamoDBLocal process'')
   \<and> runningProcesses
        (snd (launch 8000 JUndefined JUndefined False False JUndefined failing_os installed_world)) 8000
        = None"
proof -
  have a: "runningProcesses installed_world 8000 = None"
    by (simp add: installed_facts)
  have b: "install_returns failing_os installed_world"
    by (simp add: install_returns_def installed_jar)
  have c: "\<not> has_pid \<lparr>cid = next_child installed_world, pid = spawned_pid failing_os\<rparr>"
    by (simp add: has_pid_def failing_os_def)
  from launch_without_pid [OF a b c, of JUndefined JUndefined False False JUndefined] a b c
  show ?thesis by simp
qed

section \<open>The jar is already there\<close>

text \<open>
  C7. When \<^verbatim>\<open>DynamoDBLocal.jar\<close> exists under the configured install path, the
  installer returns normally and changes nothing, and \<^verbatim>\<open>launch\<close> makes no directory,
  reads or requests no archive and starts no extraction: the only event it adds is the
  \<^verbatim>\<open>spawn\<close> (none when the port is already registered), and the files are as before.
\<close>

theorem install_noop_when_jar_present:
  assumes "jar_present s"
  shows "installDynamoDbLocal env s = (Inr (), s)
         \<and> filter is_install_event (trace (snd (launch port dbPath additionalArgs verbose detached javaOpts env s)))
             = filter is_install_event (trace s)
         \<and> files (snd (launch port dbPath additionalArgs verbose detached javaOpts env s)) = files s
         \<and> trace (snd (launch port dbPath additionalArgs verbose detached javaOpts env s))
             = trace s @
               (case runningProcesses s port of
                  Some c \<Rightarrow> []
                | None \<Rightarrow>
                    [Spawn (next_child s) ''java''
                       (launch_args port javaOpts (additional_list additionalArgs s @ db_flags dbPath))
                       (installPath (Config s))])"
proof -
  have i: "installDynamoDbLocal env s = (Inr (), s)" for env
    using assms by (simp add: installDynamoDbLocal_def)
  show ?thesis
  proof (cases "runningProcesses s port")
    case (Some c)
    then show ?thesis
      using i by (simp add: launch_registered)
  next
    case None
    obtain a s2 where p: "prepareArgs dbPath additionalArgs s = (a, s2)"
      by (cases "prepareArgs dbPath additionalArgs s")
    note f2 = prepareArgs_frame [OF p]
    have "jar_present s2"
      using assms f2 by (simp add: jar_present_def)
    then have i2: "installDynamoDbLocal env s2 = (Inr (), s2)"
      by (simp add: installDynamoDbLocal_def)
    have L: "launch port dbPath additionalArgs verbose detached javaOpts env s
               = launch_then port a verbose detached javaOpts env s2"
      using launch_sync_unregistered [OF None p] i2 by (simp add: launch_def)
    have arr: "array_at s2 a = additional_list additionalArgs s @ db_flags dbPath"
      by (rule prepareArgs_array [OF p])
    show ?thesis
      using None f2 arr i by (simp add: L launch_then_def Let_def emit_def)
  qed
qed

theorem install_noop_when_jar_present_witness:
  "jar_present installed_world
   \<and> installDynamoDbLocal example_os installed_world = (Inr (), installed_world)
   \<and> files (snd (launch 8000 JUndefined JUndefined False False JUndefined example_os installed_world))
        = files installed_world
   \<and> trace (snd (launch 8000 JUndefined JUndefined False False JUndefined example_os installed_world))
        = [Spawn 0 ''java''
             [JStr ''-Xrs'', JStr ''-Djava.library.path=./DynamoDBLocal_lib'', JStr ''-jar'',
              JStr ''DynamoDBLocal.jar'', JStr ''-port'', JNum 8000, JStr ''-inMemory'']
             ''/tmp/dynamodb-local'']"
proof -
  have j: "jar_present installed_world"
    by (rule installed_jar)
  have args: "launch_args 8000 JUndefined (additional_list JUndefined installed_world @ db_flags JUndefined)
      = [JStr ''-Xrs'', JStr ''-Djava.library.path=./DynamoDBLocal_lib'', JStr ''-jar'',
         JStr ''DynamoDBLocal.jar'', JStr ''-port'', JNum 8000, JStr ''-inMemory'']"
    by (simp add: launch_args_def javaOpts_default_def additional_list_def db_flags_def JARNAME_def)
  from install_noop_when_jar_present
         [OF j, of example_os 8000 JUndefined JUndefined False False JUndefined]
  show ?thesis
    using j by (simp add: installed_facts args)
qed

section \<open>The caller's array\<close>

lemma launch_then_arrays:
  "arrays (snd (launch_then port a verbose detached javaOpts env s)) = arrays s"
  by (simp add: launch_then_def Let_def emit_def)

lemma launch_arrays:
  "arrays (snd (launch port dbPath additionalArgs verbose detached javaOpts env s))
     = arrays (snd (launch_sync port dbPath additionalArgs env s))"
proof -
  obtain r s1 where l: "launch_sync port dbPath additionalArgs env s = (r, s1)"
    by (cases "launch_sync port dbPath additionalArgs env s")
  show ?thesis
    by (cases r) (simp_all add: launch_def l launch_then_arrays)
qed

lemma launch_sync_callers_array:
  assumes "arrays s a = Some xs" and "runningProcesses s port = None"
  shows "arrays (snd (launch_sync port dbPath (JArr a) env s)) a = Some (xs @ db_flags dbPath)"
    and "spawned (trace (snd (launch_sync port dbPath (JArr a) env s))) = spawned (trace s)"
proof -
  have p: "prepareArgs dbPath (JArr a) s = (a, push a (db_flags dbPath) s)"
    by (simp add: prepareArgs_def normalizeArgs_def pushDbFlags_eq)
  obtain r s3 where i: "installDynamoDbLocal env (push a (db_flags dbPath) s) = (r, s3)"
    by (cases "installDynamoDbLocal env (push a (db_flags dbPath) s)")
  note f3 = install_frame [OF i]
  have s3: "snd (launch_sync port dbPath (JArr a) env s) = s3"
    using launch_sync_unregistered [OF assms(2) p, of env] i by (cases r) simp_all
  show "arrays (snd (launch_sync port dbPath (JArr a) env s)) a = Some (xs @ db_flags dbPath)"
    using f3 assms(1) by (simp add: s3 push_def array_at_def)
  show "spawned (trace (snd (launch_sync port dbPath (JArr a) env s))) = spawned (trace s)"
    using f3 by (simp add: s3 push_def)
qed

text \<open>
  C10. When \<^verbatim>\<open>additionalArgs\<close> is an array and the port has no registry entry,
  \<^verbatim>\<open>launch\<close> pushes onto the caller's own array: \<^verbatim>\<open>-inMemory\<close> when \<^verbatim>\<open>dbPath\<close> is
  falsy, \<^verbatim>\<open>-dbPath\<close> and \<^verbatim>\<open>dbPath\<close> otherwise. The push is done in the synchronous
  part of the call, where nothing has been spawned yet, and the array holds the new
  entries after the call whether or not the launch succeeds.
\<close>

theorem launch_pushes_onto_callers_array:
  assumes "arrays s a = Some xs" and "runningProcesses s port = None"
  shows "arrays (snd (launch_sync port dbPath (JArr a) env s)) a
           = Some (xs @ (if \<not> truthy dbPath then [JStr ''-inMemory''] else [JStr ''-dbPath'', dbPath]))
         \<and> spawned (trace (snd (launch_sync port dbPath (JArr a) env s))) = spawned (trace s)
         \<and> arrays (snd (launch port dbPath (JArr a) verbose detached javaOpts env s)) a
           = Some (xs @ (if \<not> truthy dbPath then [JStr ''-inMemory''] else [JStr ''-dbPath'', dbPath]))"
proof -
  note sync = launch_sync_callers_array [OF assms, of dbPath env]
  have "arrays (snd (launch port dbPath (JArr a) verbose detached javaOpts env s))
          = arrays (snd (launch_sync port dbPath (JArr a) env s))"
    by (rule launch_arrays)
  with sync show ?thesis
    by (simp add: db_flags_def)
qed

theorem launch_pushes_onto_callers_array_witness:
  "arrays (with_array [JStr ''-sharedDb''] installed_world) 0 = Some [JStr ''-sharedDb'']
   \<and> runningProcesses (with_array [JStr ''-sharedDb''] installed_world) 8000 = None
   \<and> arrays (snd (launch 8000 JUndefined (JArr 0) False False JUndefined example_os
                (with_array [JStr ''-sharedDb''] installed_world))) 0
        = Some [JStr ''-sharedDb'', JStr ''-inMemory'']
   \<and> arrays (snd (launch 8000 (JStr ''/data'') (JArr 0) False False JUndefined example_os
                (with_array [JStr ''-sharedDb''] installed_world))) 0
        = Some [JStr ''-sharedDb'', JStr ''-dbPath'', JStr ''/data'']"
proof -
  have a: "arrays (with_array [JStr ''-sharedDb''] installed_world) 0 = Some [JStr ''-sharedDb'']"
    by (simp add: with_array_def)
  have b: "runningProcesses (with_array [JStr ''-sharedDb''] installed_world) 8000 = None"
    by (simp add: with_array_def installed_facts)
  from launch_pushes_onto_callers_array [OF a b, of JUndefined example_os False False JUndefined]
       launch_pushes_onto_callers_array [OF a b, of "JStr ''/data''" example_os False False JUndefined]
       a b
  show ?thesis by simp
qed

section \<open>Launching on an occupied port\<close>



section \<open>Fresh handles\<close>

text \<open>The registry holds only children that \<^verbatim>\<open>spawn\<close> has returned: true of the
  module as loaded, and kept by every operation.\<close>

lemma registry_fresh_initial: "registry_fresh (initial_world tmpdir fs)"
  by (simp add: registry_fresh_def initial_world_def)

lemma registry_fresh_stop: "registry_fresh s \<Longrightarrow> registry_fresh (stop p s)"
  by (auto simp: registry_fresh_def stop_def emit_def ran_def split: option.splits if_splits)

lemma registry_fresh_configureInstaller:
  "registry_fresh s \<Longrightarrow> registry_fresh (configureInstaller conf s)"
  by (simp add: registry_fresh_def configureInstaller_def Let_def)

lemma registry_fresh_redirectResponse:
  "registry_fresh s \<Longrightarrow> registry_fresh (redirectResponse status location s)"
  by (simp add: registry_fresh_def redirectResponse_def Let_def emit_def)

lemma registry_fresh_stopChild: "registry_fresh s \<Longrightarrow> registry_fresh (stopChild c s)"
  by (simp add: registry_fresh_def stopChild_def emit_def)

lemma registry_fresh_launch:
  assumes "registry_fresh s"
  shows "registry_fresh (snd (launch port dbPath additionalArgs verbose detached javaOpts env s))"
proof (cases "runningProcesses s port")
  case (Some c)
  then show ?thesis
    using assms by (simp add: launch_registered)
next
  case None
  show ?thesis
  proof (cases "install_returns env s")
    case True
    from launch_spawns(3,4) [OF None True, of dbPath additionalArgs verbose detached javaOpts] assms
    show ?thesis
      by (auto simp: registry_fresh_def ran_def split: if_splits)
  next
    case False
    from launch_rejected(3,4) [OF None False, of dbPath additionalArgs verbose detached javaOpts] assms
    show ?thesis
      by (simp add: registry_fresh_def)
  qed
qed

lemma registry_fresh_lookup:
  "registry_fresh s \<Longrightarrow> runningProcesses s p = Some h \<Longrightarrow> cid h < next_child s"
  by (auto simp: registry_fresh_def ran_def)

lemma launch_returned_registered:
  assumes "launch p d a v t j env s = (Inr h, s1)"
  shows "runningProcesses s1 p = Some h"
proof (cases "runningProcesses s p")
  case (Some c)
  then show ?thesis
    using assms launch_registered [OF Some, of d a v t j env] by simp
next
  case None
  show ?thesis
  proof (cases "install_returns env s")
    case True
    from launch_spawns(2,3) [OF None True, of d a v t j] assms
    show ?thesis by (simp split: if_splits)
  next
    case False
    from launch_rejected(1) [OF None False, of d a v t j] assms
    show ?thesis by simp
  qed
qed

lemma stop_frame:
  "Config (stop p s) = Config s" "files (stop p s) = files s" "arrays (stop p s) = arrays s"
  "next_child (stop p s) = next_child s" "spawned (trace (stop p s)) = spawned (trace s)"
  "runningProcesses (stop p s) p = None"
  by (simp_all add: stop_def emit_def spawned_append split: option.splits)

lemma install_trace_grows:
  "\<exists>es. trace (snd (installDynamoDbLocal env s)) = trace s @ es"
  by (simp add: installDynamoDbLocal_def mkdirSync_def emit_def)

lemma launch_then_trace_grows:
  "\<exists>es. trace (snd (launch_then port a verbose detached javaOpts env s)) = trace s @ es"
  by (simp add: launch_then_def Let_def emit_def)

lemma launch_sync_trace_grows:
  "\<exists>es. trace (snd (launch_sync port dbPath additionalArgs env s)) = trace s @ es"
proof (cases "runningProcesses s port")
  case (Some c)
  then show ?thesis by (simp add: launch_sync_def)
next
  case None
  obtain a s2 where p: "prepareArgs dbPath additionalArgs s = (a, s2)"
    by (cases "prepareArgs dbPath additionalArgs s")
  obtain r s3 where i: "installDynamoDbLocal env s2 = (r, s3)"
    by (cases "installDynamoDbLocal env s2")
  have "snd (launch_sync port dbPath additionalArgs env s) = s3"
    using launch_sync_unregistered [OF None p, of env] i by (cases r) simp_all
  then show ?thesis
    using install_trace_grows [of env s2] i prepareArgs_frame [OF p] by simp
qed

lemma launch_trace_grows:
  "\<exists>es. trace (snd (launch port dbPath additionalArgs verbose detached javaOpts env s)) = trace s @ es"
proof -
  obtain r s1 where l: "launch_sync port dbPath additionalArgs env s = (r, s1)"
    by (cases "launch_sync port dbPath additionalArgs env s")
  obtain es where es: "trace s1 = trace s @ es"
    using launch_sync_trace_grows [of port dbPath additionalArgs env s] l by auto
  show ?thesis
  proof (cases r)
    case (Then a)
    obtain es' where "trace (snd (launch_then port a verbose detached javaOpts env s1)) = trace s1 @ es'"
      using launch_then_trace_grows by blast
    then show ?thesis
      using es by (simp add: launch_def l Then)
  qed (simp_all add: launch_def l es)
qed

lemma launched_facts:
  "launched_world =
     \<lparr>Config = \<lparr>installPath = ''/tmp/dynamodb-local'',
         downloadUrl = ''https://s3-us-west-2.amazonaws.com/dynamodb-local/dynamodb_local_latest.tar.gz''\<rparr>,
      runningProcesses = [8000 \<mapsto> \<lparr>cid = 0, pid = Some 4242\<rparr>],
      files = {''/tmp'', ''/tmp/dynamodb-local'', ''/tmp/dynamodb-local/DynamoDBLocal.jar''},
      arrays = [0 \<mapsto> [JStr ''-inMemory'']],
      next_array = 1,
      next_child = 1,
      exit_hooks = [0],
      trace = [Spawn 0 ''java''
                 [JStr ''-Xrs'', JStr ''-Djava.library.path=./DynamoDBLocal_lib'', JStr ''-jar'',
                  JStr ''DynamoDBLocal.jar'', JStr ''-port'', JNum 8000, JStr ''-inMemory'']
                 ''/tmp/dynamodb-local'']\<rparr>"
  by (simp add: launched_world_def launch_def launch_sync_def installed_world_def initial_world_def
        normalizeArgs_def new_array_def pushDbFlags_def push_def array_at_def
        installDynamoDbLocal_def jar_present_def path_join_def JARNAME_def
        launch_then_def launch_args_def javaOpts_default_def has_pid_def example_os_def emit_def
        Let_def)

section \<open>Relaunching\<close>

lemma relaunch_after_launch:
  assumes fresh: "registry_fresh s0"
    and prior: "launch p d0 a0 v0 t0 j0 env0 s0 = (Inr h, s)"
  shows "Kill (cid h) SIGKILL \<in> set (trace (snd (relaunch p d a v t j env s)))
         \<and> cid h \<noteq> next_child s
         \<and> (install_returns env s \<longrightarrow>
              spawned (trace (snd (relaunch p d a v t j env s)))
                = spawned (trace s) @
                  [(next_child s, ''java'',
                    launch_args p j (additional_list a s @ db_flags d), installPath (Config s))])
         \<and> (\<forall>h'. fst (relaunch p d a v t j env s) = Inr h' \<longrightarrow>
              cid h' = next_child s \<and> h' \<noteq> h
              \<and> runningProcesses (snd (relaunch p d a v t j env s)) p = Some h')"
proof -
  let ?R = "relaunch p d a v t j env s"
  have reg: "runningProcesses s p = Some h"
    by (rule launch_returned_registered [OF prior])
  have "registry_fresh s"
    using registry_fresh_launch [OF fresh, of p d0 a0 v0 t0 j0 env0] prior by simp
  then have lt: "cid h < next_child s"
    using reg by (rule registry_fresh_lookup)
  have R: "?R = launch p d a v t j env (stop p s)"
    by (simp add: relaunch_def)
  have free: "runningProcesses (stop p s) p = None"
    by (rule stop_frame)
  have killed: "Kill (cid h) SIGKILL \<in> set (trace (stop p s))"
    using reg by (simp add: stop_def emit_def)
  have kill: "Kill (cid h) SIGKILL \<in> set (trace (snd ?R))"
    using killed launch_trace_grows [of p d a v t j env "stop p s"] by (auto simp: R)
  have ir: "install_returns env (stop p s) = install_returns env s"
    by (simp add: install_returns_def jar_present_def stop_frame)
  have al: "additional_list a (stop p s) = additional_list a s"
    by (cases a) (simp_all add: additional_list_def array_at_def stop_frame)
  have sp: "spawned (trace (snd ?R))
                = spawned (trace s) @
                  [(next_child s, ''java'',
                    launch_args p j (additional_list a s @ db_flags d), installPath (Config s))]"
    if "install_returns env s"
    using launch_spawns(1) [OF free, of env d a v t j] that
    by (simp add: R ir al stop_frame)
  have ret: "cid h' = next_child s \<and> h' \<noteq> h \<and> runningProcesses (snd ?R) p = Some h'"
    if h': "fst ?R = Inr h'" for h'
  proof (cases "install_returns env s")
    case True
    then have i: "install_returns env (stop p s)"
      by (simp add: ir)
    from launch_spawns(2,3) [OF free i, of d a v t j] h' lt
    show ?thesis
      by (auto simp: R stop_frame split: if_splits)
  next
    case False
    then have i: "\<not> install_returns env (stop p s)"
      by (simp add: ir)
    from launch_rejected(1) [OF free i, of d a v t j] h'
    show ?thesis by (simp add: R)
  qed
  from kill lt sp ret show ?thesis
    by (simp del: set_append)
qed

text \<open>
  C6. \<^verbatim>\<open>relaunch(p, ...args)\<close> is \<^verbatim>\<open>stop(p)\<close> followed by \<^verbatim>\<open>launch(p, ...args)\<close>:
  the function of the source and the one worded by the specification give the same
  result and the same state, in every state. After a launch on the port has returned
  the handle \<open>h\<close>, a relaunch kills \<open>h\<close>, and the subprocess it spawns (it spawns
  exactly one whenever the installer returns) is a new object: the handle that the
  relaunch returns is not \<open>h\<close>, and it is the one registered for the port afterwards.
\<close>

theorem relaunch_stop_then_launch:
  "relaunch p d a v t j env s = relaunch_spec p d a v t j env s
   \<and> (registry_fresh s0 \<and> launch p d0 a0 v0 t0 j0 env0 s0 = (Inr h, s) \<longrightarrow>
         Kill (cid h) SIGKILL \<in> set (trace (snd (relaunch p d a v t j env s)))
         \<and> cid h \<noteq> next_child s
         \<and> (install_returns env s \<longrightarrow>
              spawned (trace (snd (relaunch p d a v t j env s)))
                = spawned (trace s) @
                  [(next_child s, ''java'',
                    launch_args p j (additional_list a s @ db_flags d), installPath (Config s))])
         \<and> (\<forall>h'. fst (relaunch p d a v t j env s) = Inr h' \<longrightarrow>
              cid h' = next_child s \<and> h' \<noteq> h
              \<and> runningProcesses (snd (relaunch p d a v t j env s)) p = Some h'))"
proof (rule conjI)
  show "relaunch p d a v t j env s = relaunch_spec p d a v t j env s"
    by (simp add: relaunch_def relaunch_spec_def)
next
  show "registry_fresh s0 \<and> launch p d0 a0 v0 t0 j0 env0 s0 = (Inr h, s) \<longrightarrow>
         Kill (cid h) SIGKILL \<in> set (trace (snd (relaunch p d a v t j env s)))
         \<and> cid h \<noteq> next_child s
         \<and> (install_returns env s \<longrightarrow>
              spawned (trace (snd (relaunch p d a v t j env s)))
                = spawned (trace s) @
                  [(next_child s, ''java'',
                    launch_args p j (additional_list a s @ db_flags d), installPath (Config s))])
         \<and> (\<forall>h'. fst (relaunch p d a v t j env s) = Inr h' \<longrightarrow>
              cid h' = next_child s \<and> h' \<noteq> h
              \<and> runningProcesses (snd (relaunch p d a v t j env s)) p = Some h')"
  proof (rule impI)
    assume "registry_fresh s0 \<and> launch p d0 a0 v0 t0 j0 env0 s0 = (Inr h, s)"
    then have fresh: "registry_fresh s0"
      and prior: "launch p d0 a0 v0 t0 j0 env0 s0 = (Inr h, s)"
      by simp_all
    show "Kill (cid h) SIGKILL \<in> set (trace (snd (relaunch p d a v t j env s)))
         \<and> cid h \<noteq> next_child s
         \<and> (install_returns env s \<longrightarrow>
              spawned (trace (snd (relaunch p d a v t j env s)))
                = spawned (trace s) @
                  [(next_child s, ''java'',
                    launch_args p j (additional_list a s @ db_flags d), installPath (Config s))])
         \<and> (\<forall>h'. fst (relaunch p d a v t j env s) = Inr h' \<longrightarrow>
              cid h' = next_child s \<and> h' \<noteq> h
              \<and> runningProcesses (snd (relaunch p d a v t j env s)) p = Some h')"
      by (rule relaunch_after_launch [OF fresh prior])
  qed
qed

theorem relaunch_stop_then_launch_witness:
  "registry_fresh installed_world
   \<and> launch 8000 JUndefined JUndefined False False JUndefined example_os installed_world
       = (Inr \<lparr>cid = 0, pid = Some 4242\<rparr>, launched_world)
   \<and> relaunch 8000 JUndefined JUndefined False False JUndefined example_os launched_world
       = relaunch_spec 8000 JUndefined JUndefined False False JUndefined example_os launched_world
   \<and> Kill 0 SIGKILL
        \<in> set (trace (snd (relaunch 8000 JUndefined JUndefined False False JUndefined example_os
                              launched_world)))
   \<and> install_returns example_os launched_world
   \<and> length (spawned (trace (snd (relaunch 8000 JUndefined JUndefined False False JUndefined
                                     example_os launched_world)))) = 2
   \<and> fst (relaunch 8000 JUndefined JUndefined False False JUndefined example_os launched_world)
       = Inr \<lparr>cid = 1, pid = Some 4242\<rparr>
   \<and> \<lparr>cid = 1, pid = Some 4242\<rparr> \<noteq> \<lparr>cid = 0, pid = Some 4242\<rparr>
   \<and> runningProcesses
        (snd (relaunch 8000 JUndefined JUndefined False False JUndefined example_os launched_world))
        8000 = Some \<lparr>cid = 1, pid = Some 4242\<rparr>"
proof -
  have fresh: "registry_fresh installed_world"
    by (simp add: installed_world_def registry_fresh_initial)
  have free: "runningProcesses installed_world 8000 = None"
    by (simp add: installed_facts)
  have inst: "install_returns example_os installed_world"
    by (simp add: install_returns_def installed_jar)
  have "fst (launch 8000 JUndefined JUndefined False False JUndefined example_os installed_world)
          = Inr \<lparr>cid = 0, pid = Some 4242\<rparr>"
    using launch_spawns(2) [OF free inst, of JUndefined JUndefined False False JUndefined]
    by (simp add: installed_facts example_os_def has_pid_def)
  then have prior: "launch 8000 JUndefined JUndefined False False JUndefined example_os installed_world
     = (Inr \<lparr>cid = 0, pid = Some 4242\<rparr>, launched_world)"
    by (simp add: launched_world_def prod_eq_iff)
  have ir: "install_returns example_os launched_world"
    by (simp add: install_returns_def example_os_def)
  have sp: "length (spawned (trace launched_world)) = 1" and nc: "next_child launched_world = 1"
    by (simp_all add: launched_facts)
  have free': "runningProcesses (stop 8000 launched_world) 8000 = None"
    by (rule stop_frame)
  have ir': "install_returns example_os (stop 8000 launched_world)"
    by (simp add: install_returns_def example_os_def)
  have ret: "fst (relaunch 8000 JUndefined JUndefined False False JUndefined example_os launched_world)
       = Inr \<lparr>cid = 1, pid = Some 4242\<rparr>"
    using launch_spawns(2) [OF free' ir', of JUndefined JUndefined False False JUndefined]
    by (simp add: relaunch_def stop_frame nc example_os_def has_pid_def)
  note U = relaunch_stop_then_launch
         [of 8000 JUndefined JUndefined False False JUndefined example_os launched_world
             installed_world JUndefined JUndefined False False JUndefined example_os
             "\<lparr>cid = 0, pid = Some 4242\<rparr>"]
  from U have 1: "relaunch 8000 JUndefined JUndefined False False JUndefined example_os launched_world
       = relaunch_spec 8000 JUndefined JUndefined False False JUndefined example_os launched_world"
    by (rule conjunct1)
  note T = U [THEN conjunct2, THEN mp, OF conjI [OF fresh prior]]
  from T [THEN conjunct1] have 2: "Kill 0 SIGKILL
        \<in> set (trace (snd (relaunch 8000 JUndefined JUndefined False False JUndefined example_os
                              launched_world)))"
    by simp
  from T ir have "spawned (trace (snd (relaunch 8000 JUndefined JUndefined False False JUndefined
                                     example_os launched_world)))
       = spawned (trace launched_world) @
           [(next_child launched_world, ''java'',
             launch_args 8000 JUndefined (additional_list JUndefined launched_world @ db_flags JUndefined),
             installPath (Config launched_world))]"
    by blast
  then have 3: "length (spawned (trace (snd (relaunch 8000 JUndefined JUndefined False False JUndefined
                                     example_os launched_world)))) = 2"
    using sp by simp
  from T ret have 4: "runningProcesses
        (snd (relaunch 8000 JUndefined JUndefined False False JUndefined example_os launched_world))
        8000 = Some \<lparr>cid = 1, pid = Some 4242\<rparr>"
    by blast
  have 5: "\<lparr>cid = 1, pid = Some 4242\<rparr> \<noteq> \<lparr>cid = 0::nat, pid = Some (4242::nat)\<rparr>"
    by simp
  show ?thesis
    by (intro conjI fresh prior 1 2 3 4 5 ir ret)
qed

section \<open>The argument list of the subprocess\<close>

lemma launch_args_explicit:
  "launch_args port javaOpts additional =
     [JStr ''-Xrs'', JStr ''-Djava.library.path=./DynamoDBLocal_lib'']
     @ (if truthy javaOpts then [javaOpts] else [])
     @ [JStr ''-jar'', JStr ''DynamoDBLocal.jar'', JStr ''-port'']
     @ (if port \<noteq> 0 then [JNum port] else [])
     @ additional"
  by (cases javaOpts) (simp_all add: launch_args_def javaOpts_default_def JARNAME_def)

lemma with_array_facts:
  "runningProcesses (with_array xs s) = runningProcesses s"
  "files (with_array xs s) = files s"
  "Config (with_array xs s) = Config s"
  "next_child (with_array xs s) = next_child s"
  "trace (with_array xs s) = trace s"
  "arrays (with_array xs s) 0 = Some xs"
  by (simp_all add: with_array_def)

lemma install_returns_example: "install_returns example_os s"
  by (simp add: install_returns_def example_os_def)

text \<open>
  C3, as the code has it. A call of \<^verbatim>\<open>launch\<close> that spawns hands \<^verbatim>\<open>spawn\<close> this list,
  in this order: \<^verbatim>\<open>-Xrs\<close>, \<^verbatim>\<open>-Djava.library.path=./DynamoDBLocal_lib\<close>, \<^verbatim>\<open>javaOpts\<close>
  when it is truthy, \<^verbatim>\<open>-jar\<close>, \<^verbatim>\<open>DynamoDBLocal.jar\<close>, \<^verbatim>\<open>-port\<close>, the port when it is not
  0, then the additional arguments as the caller gave them, then the flags of
  \<^verbatim>\<open>dbPath\<close>. The filter of falsy entries runs over the seven leading entries only
  (second conjunct); the additional arguments are appended after it, unfiltered.
\<close>

theorem launch_spawn_argument_list:
  assumes "runningProcesses s port = None" and "install_returns env s"
  shows "spawned (trace (snd (launch port dbPath additionalArgs verbose detached javaOpts env s)))
           = spawned (trace s) @
             [(next_child s, ''java'',
               [JStr ''-Xrs'', JStr ''-Djava.library.path=./DynamoDBLocal_lib'']
               @ (if truthy javaOpts then [javaOpts] else [])
               @ [JStr ''-jar'', JStr ''DynamoDBLocal.jar'', JStr ''-port'']
               @ (if port \<noteq> 0 then [JNum port] else [])
               @ additional_list additionalArgs s
               @ (if \<not> truthy dbPath then [JStr ''-inMemory''] else [JStr ''-dbPath'', dbPath]),
               installPath (Config s))]
         \<and> [JStr ''-Xrs'', JStr ''-Djava.library.path=./DynamoDBLocal_lib'']
               @ (if truthy javaOpts then [javaOpts] else [])
               @ [JStr ''-jar'', JStr ''DynamoDBLocal.jar'', JStr ''-port'']
               @ (if port \<noteq> 0 then [JNum port] else [])
             = filter truthy
                 [JStr ''-Xrs'', JStr ''-Djava.library.path=./DynamoDBLocal_lib'', javaOpts,
                  JStr ''-jar'', JStr ''DynamoDBLocal.jar'', JStr ''-port'', JNum port]"
  using launch_spawns(1) [OF assms, of dbPath additionalArgs verbose detached javaOpts]
  by (simp add: launch_args_explicit db_flags_def)

theorem launch_spawn_argument_list_witness:
  "runningProcesses (with_array [JStr ''-sharedDb''] installed_world) 8000 = None
   \<and> install_returns example_os (with_array [JStr ''-sharedDb''] installed_world)
   \<and> spawned (trace (snd (launch 8000 (JStr ''/data'') (JArr 0) False False (JStr ''-Xmx1g'')
                 example_os (with_array [JStr ''-sharedDb''] installed_world))))
       = [(0, ''java'',
           [JStr ''-Xrs'', JStr ''-Djava.library.path=./DynamoDBLocal_lib'', JStr ''-Xmx1g'',
            JStr ''-jar'', JStr ''DynamoDBLocal.jar'', JStr ''-port'', JNum 8000,
            JStr ''-sharedDb'', JStr ''-dbPath'', JStr ''/data''],
           ''/tmp/dynamodb-local'')]"
proof -
  have a: "runningProcesses (with_array [JStr ''-sharedDb''] installed_world) 8000 = None"
    by (simp add: with_array_facts installed_facts)
  have b: "install_returns example_os (with_array [JStr ''-sharedDb''] installed_world)"
    by (rule install_returns_example)
  from launch_spawn_argument_list
         [OF a b, of "JStr ''/data''" "JArr 0" False False "JStr ''-Xmx1g''"]
  show ?thesis
    using a b
    by (simp add: with_array_facts installed_facts additional_list_def array_at_def)
qed

text \<open>
  C3 as stated fails: with \<^verbatim>\<open>additionalArgs = ['']\<close> the list handed to \<^verbatim>\<open>spawn\<close>
  holds the empty string, so not every falsy entry is filtered out of the assembled
  list.
\<close>

theorem launch_args_keep_falsy_entry:
  "spawned (trace (snd (launch 8000 JUndefined (JArr 0) False False JUndefined example_os
                         (with_array [JStr ''''] installed_world))))
     = [(0, ''java'',
         [JStr ''-Xrs'', JStr ''-Djava.library.path=./DynamoDBLocal_lib'',
          JStr ''-jar'', JStr ''DynamoDBLocal.jar'', JStr ''-port'', JNum 8000,
          JStr '''', JStr ''-inMemory''],
         ''/tmp/dynamodb-local'')]
   \<and> \<not> truthy (JStr '''')
   \<and> [JStr ''-Xrs'', JStr ''-Djava.library.path=./DynamoDBLocal_lib'',
          JStr ''-jar'', JStr ''DynamoDBLocal.jar'', JStr ''-port'', JNum 8000,
          JStr '''', JStr ''-inMemory'']
       \<noteq> filter truthy
           [JStr ''-Xrs'', JStr ''-Djava.library.path=./DynamoDBLocal_lib'',
            JStr ''-jar'', JStr ''DynamoDBLocal.jar'', JStr ''-port'', JNum 8000,
            JStr '''', JStr ''-inMemory'']"
proof -
  have a: "runningProcesses (with_array [JStr ''''] installed_world) 8000 = None"
    by (simp add: with_array_facts installed_facts)
  have b: "install_returns example_os (with_array [JStr ''''] installed_world)"
    by (rule install_returns_example)
  from launch_spawns(1) [OF a b, of JUndefined "JArr 0" False False JUndefined]
  show ?thesis
    by (simp add: with_array_facts installed_facts additional_list_def array_at_def
          launch_args_explicit db_flags_def)
qed

section \<open>The flags of the database path\<close>





section \<open>A response other than 200\<close>

lemma string_of_nat_404: "string_of_nat 404 = ''404''"
  by (simp add: string_of_nat.simps [of 404] string_of_nat.simps [of 40]
        string_of_nat.simps [of 4] digit_char_def)

lemma launch_empty_dir:
  "launch 8000 JUndefined JUndefined False False JUndefined example_os empty_dir_world =
     (Inr \<lparr>cid = 0, pid = Some 4242\<rparr>,
      \<lparr>Config = \<lparr>installPath = ''/tmp/dynamodb-local'',
         downloadUrl = ''https://s3-us-west-2.amazonaws.com/dynamodb-local/dynamodb_local_latest.tar.gz''\<rparr>,
       runningProcesses = [8000 \<mapsto> \<lparr>cid = 0, pid = Some 4242\<rparr>],
       files = {''/tmp'', ''/tmp/dynamodb-local''},
       arrays = [0 \<mapsto> [JStr ''-inMemory'']],
       next_array = 1,
       next_child = 1,
       exit_hooks = [0],
       trace = [HttpGet ''https://s3-us-west-2.amazonaws.com/dynamodb-local/dynamodb_local_latest.tar.gz'',
                Spawn 0 ''java''
                 [JStr ''-Xrs'', JStr ''-Djava.library.path=./DynamoDBLocal_lib'', JStr ''-jar'',
                  JStr ''DynamoDBLocal.jar'', JStr ''-port'', JNum 8000, JStr ''-inMemory'']
                 ''/tmp/dynamodb-local'']\<rparr>)"
  by (simp add: launch_def launch_sync_def empty_dir_world_def initial_world_def
        normalizeArgs_def new_array_def pushDbFlags_def push_def array_at_def
        installDynamoDbLocal_def jar_present_def path_join_def JARNAME_def
        launch_then_def launch_args_def javaOpts_default_def has_pid_def example_os_def emit_def
        Let_def)

text \<open>
  C1. The install directory is there without the jar, the download URL is no local file,
  and the server answers 404. \<^verbatim>\<open>launch(8000)\<close> has then already returned the handle of
  a spawned child and registered it: the installer's promise is fulfilled as soon as the
  request is sent, and the rejection that the callback makes for the status is held by
  nobody. The claim (a failed \<^verbatim>\<open>launch\<close>, no subprocess, no registry entry) does not
  hold of this run.
\<close>

theorem launch_resolves_before_http_status:
  "\<not> jar_present empty_dir_world
   \<and> downloadUrl (Config empty_dir_world) \<notin> files empty_dir_world
   \<and> runningProcesses empty_dir_world 8000 = None
   \<and> fst (launch 8000 JUndefined JUndefined False False JUndefined example_os empty_dir_world)
       = Inr \<lparr>cid = 0, pid = Some 4242\<rparr>
   \<and> trace (redirectResponse 404 None
               (snd (launch 8000 JUndefined JUndefined False False JUndefined example_os
                       empty_dir_world)))
       = [HttpGet ''https://s3-us-west-2.amazonaws.com/dynamodb-local/dynamodb_local_latest.tar.gz'',
          Spawn 0 ''java''
            [JStr ''-Xrs'', JStr ''-Djava.library.path=./DynamoDBLocal_lib'', JStr ''-jar'',
             JStr ''DynamoDBLocal.jar'', JStr ''-port'', JNum 8000, JStr ''-inMemory'']
            ''/tmp/dynamodb-local'',
          Rejection ''Error getting DynamoDb local latest tar.gz location undefined: 404'',
          Extract ''/tmp/dynamodb-local'']
   \<and> runningProcesses
        (redirectResponse 404 None
           (snd (launch 8000 JUndefined JUndefined False False JUndefined example_os
                   empty_dir_world))) 8000
       = Some \<lparr>cid = 0, pid = Some 4242\<rparr>"
  by (simp add: launch_empty_dir empty_dir_no_jar empty_dir_facts redirectResponse_def
        string_of_nat_404 emit_def Let_def)

end
